theory Spec2Isabelle
  imports Complex_Main
begin

section \<open>Data model\<close>

text \<open>
  The application declares its value types in \<^verbatim>\<open>types.ts\<close>. JavaScript numbers are
  modelled by \<^typ>\<open>real\<close>: every property below is a property of the exact arithmetic
  of the bill, not of its floating-point rounding. Fields that two interfaces share
  (\<^verbatim>\<open>id\<close>, \<^verbatim>\<open>name\<close>, \<^verbatim>\<open>previous\<close>, \<^verbatim>\<open>current\<close>) carry the suffix
  \<open>_u\<close> in the user row; \<^verbatim>\<open>id\<close> and \<^verbatim>\<open>name\<close> of a meter carry \<open>_m\<close>.
\<close>

text \<open>Modelled from the spec: interface \<^verbatim>\<open>MeterReading\<close> of \<^verbatim>\<open>types.ts\<close>.\<close>

record MeterReading =
  id_m :: string
  name_m :: string
  meterNo :: string
  previous :: real
  current :: real

text \<open>Modelled from the spec: interface \<^verbatim>\<open>Slab\<close> of \<^verbatim>\<open>types.ts\<close>.\<close>

record Slab =
  limit :: real
  rate :: real

text \<open>Modelled from the spec: interface \<^verbatim>\<open>TariffConfig\<close> of \<^verbatim>\<open>types.ts\<close>.\<close>

record TariffConfig =
  slabs :: "Slab list"
  vatRate :: real
  demandCharge :: real
  meterRent :: real
  bkashCharge :: real

text \<open>Modelled from the spec: interface \<^verbatim>\<open>BillConfig\<close> of \<^verbatim>\<open>types.ts\<close>.\<close>

record BillConfig =
  month :: string
  dateGenerated :: string
  includeLateFee :: bool
  includeBkashFee :: bool
  totalBillPayable :: real

text \<open>Modelled from the spec: interface \<^verbatim>\<open>UserCalculation\<close> of \<^verbatim>\<open>types.ts\<close>.\<close>

record UserCalculation =
  id_u :: string
  name_u :: string
  unitsUsed :: real
  energyCost :: real
  fixedCost :: real
  totalPayable :: real
  previous_u :: real
  current_u :: real

text \<open>Modelled from the spec: interface \<^verbatim>\<open>BillCalculationResult\<close> of \<^verbatim>\<open>types.ts\<close>.\<close>

record BillCalculationResult =
  vatFixed :: real
  vatDistributed :: real
  vatTotal :: real
  lateFee :: real
  calculatedRate :: real
  totalUnits :: real
  userCalculations :: "UserCalculation list"
  totalCollection :: real

section \<open>The tiered energy cost evaluator\<close>

text \<open>
  \<^verbatim>\<open>calculateEnergyCost\<close>, first definition of \<^verbatim>\<open>App.tsx\<close>. The \<^verbatim>\<open>for\<close> loop over
  the slabs carries \<^verbatim>\<open>remainingUnits\<close>, \<^verbatim>\<open>energyCost\<close> and \<^verbatim>\<open>previousLimit\<close>;
  it returns the first two when the slabs are used up or at the \<^verbatim>\<open>break\<close>.
\<close>

fun slabLoop :: "Slab list \<Rightarrow> real \<Rightarrow> real \<Rightarrow> real \<Rightarrow> real \<times> real" where
  "slabLoop [] remainingUnits cost previousLimit = (remainingUnits, cost)"
| "slabLoop (slab # rest) remainingUnits cost previousLimit =
     (let slabSize = limit slab - previousLimit;
          unitsInSlab = min remainingUnits slabSize;
          cost' = (if unitsInSlab > 0 then cost + unitsInSlab * rate slab else cost);
          remainingUnits' = (if unitsInSlab > 0 then remainingUnits - unitsInSlab
                             else remainingUnits)
      in if remainingUnits' \<le> 0 then (remainingUnits', cost')
         else slabLoop rest remainingUnits' cost' (limit slab))"

definition calculateEnergyCost :: "real \<Rightarrow> Slab list \<Rightarrow> real" where
  "calculateEnergyCost units ss =
     (case slabLoop ss units 0 0 of
        (remainingUnits, cost) \<Rightarrow>
          if remainingUnits > 0 \<and> length ss > 0
          then cost + remainingUnits * rate (ss ! (length ss - 1))
          else cost)"

text \<open>\<^verbatim>\<open>calculateEnergyCost\<close>, second definition in \<^verbatim>\<open>App.tsx\<close>.\<close>

fun slabLoop_App2 :: "Slab list \<Rightarrow> real \<Rightarrow> real \<Rightarrow> real \<Rightarrow> real \<times> real" where
  "slabLoop_App2 [] remainingUnits cost previousLimit = (remainingUnits, cost)"
| "slabLoop_App2 (slab # rest) remainingUnits cost previousLimit =
     (let slabSize = limit slab - previousLimit;
          unitsInSlab = min remainingUnits slabSize;
          cost' = (if unitsInSlab > 0 then cost + unitsInSlab * rate slab else cost);
          remainingUnits' = (if unitsInSlab > 0 then remainingUnits - unitsInSlab
                             else remainingUnits)
      in if remainingUnits' \<le> 0 then (remainingUnits', cost')
         else slabLoop_App2 rest remainingUnits' cost' (limit slab))"

definition calculateEnergyCost_App2 :: "real \<Rightarrow> Slab list \<Rightarrow> real" where
  "calculateEnergyCost_App2 units ss =
     (case slabLoop_App2 ss units 0 0 of
        (remainingUnits, cost) \<Rightarrow>
          if remainingUnits > 0 \<and> length ss > 0
          then cost + remainingUnits * rate (ss ! (length ss - 1))
          else cost)"

text \<open>\<^verbatim>\<open>calculateEnergyCost\<close> of \<^verbatim>\<open>components/TrendsDashboard.tsx\<close>.\<close>

fun slabLoop_Trends :: "Slab list \<Rightarrow> real \<Rightarrow> real \<Rightarrow> real \<Rightarrow> real \<times> real" where
  "slabLoop_Trends [] remainingUnits cost previousLimit = (remainingUnits, cost)"
| "slabLoop_Trends (slab # rest) remainingUnits cost previousLimit =
     (let slabSize = limit slab - previousLimit;
          unitsInSlab = min remainingUnits slabSize;
          cost' = (if unitsInSlab > 0 then cost + unitsInSlab * rate slab else cost);
          remainingUnits' = (if unitsInSlab > 0 then remainingUnits - unitsInSlab
                             else remainingUnits)
      in if remainingUnits' \<le> 0 then (remainingUnits', cost')
         else slabLoop_Trends rest remainingUnits' cost' (limit slab))"

definition calculateEnergyCost_Trends :: "real \<Rightarrow> Slab list \<Rightarrow> real" where
  "calculateEnergyCost_Trends units ss =
     (case slabLoop_Trends ss units 0 0 of
        (remainingUnits, cost) \<Rightarrow>
          if remainingUnits > 0 \<and> length ss > 0
          then cost + remainingUnits * rate (ss ! (length ss - 1))
          else cost)"

section \<open>The bill allocation engine\<close>

text \<open>
  \<^verbatim>\<open>calculateBillBreakdown\<close>, first definition of \<^verbatim>\<open>App.tsx\<close>, is straight-line code:
  each of its local constants is a definition here, under its own name. Five locals
  share their name with a field of the result and are written with a prime.
\<close>

definition mainUnits :: "MeterReading \<Rightarrow> real" where
  "mainUnits mainMeter = max 0 (current mainMeter - previous mainMeter)"

definition energyCostBase :: "MeterReading \<Rightarrow> TariffConfig \<Rightarrow> real" where
  "energyCostBase mainMeter tariffConfig =
     calculateEnergyCost (mainUnits mainMeter) (slabs tariffConfig)"

definition fixedBase :: "TariffConfig \<Rightarrow> real" where
  "fixedBase tariffConfig = demandCharge tariffConfig + meterRent tariffConfig"

definition taxableBase :: "MeterReading \<Rightarrow> TariffConfig \<Rightarrow> real" where
  "taxableBase mainMeter tariffConfig =
     energyCostBase mainMeter tariffConfig + fixedBase tariffConfig"

definition vatTotal' :: "MeterReading \<Rightarrow> TariffConfig \<Rightarrow> real" where
  "vatTotal' mainMeter tariffConfig =
     taxableBase mainMeter tariffConfig * vatRate tariffConfig"

definition lateFee' :: "BillConfig \<Rightarrow> MeterReading \<Rightarrow> TariffConfig \<Rightarrow> real" where
  "lateFee' config mainMeter tariffConfig =
     (if includeLateFee config then vatTotal' mainMeter tariffConfig else 0)"

definition bkash :: "BillConfig \<Rightarrow> TariffConfig \<Rightarrow> real" where
  "bkash config tariffConfig =
     (if includeBkashFee config then bkashCharge tariffConfig else 0)"

definition totalBillCalculated :: "BillConfig \<Rightarrow> MeterReading \<Rightarrow> TariffConfig \<Rightarrow> real" where
  "totalBillCalculated config mainMeter tariffConfig =
     taxableBase mainMeter tariffConfig + vatTotal' mainMeter tariffConfig
       + lateFee' config mainMeter tariffConfig + bkash config tariffConfig"

definition vatFixed' :: "TariffConfig \<Rightarrow> real" where
  "vatFixed' tariffConfig = fixedBase tariffConfig * vatRate tariffConfig"

definition vatDistributed' :: "MeterReading \<Rightarrow> TariffConfig \<Rightarrow> real" where
  "vatDistributed' mainMeter tariffConfig =
     vatTotal' mainMeter tariffConfig - vatFixed' tariffConfig"

text \<open>The \<^verbatim>\<open>forEach\<close> that accumulates \<^verbatim>\<open>totalSubmeterUnits\<close>, starting from 0.\<close>

definition totalSubmeterUnits :: "MeterReading list \<Rightarrow> real" where
  "totalSubmeterUnits meters =
     fold (\<lambda>m total. let units = current m - previous m
                      in total + (if units > 0 then units else 0)) meters 0"

definition fixedSharedPool :: "BillConfig \<Rightarrow> MeterReading \<Rightarrow> TariffConfig \<Rightarrow> real" where
  "fixedSharedPool config mainMeter tariffConfig =
     fixedBase tariffConfig + vatFixed' tariffConfig + bkash config tariffConfig
       + lateFee' config mainMeter tariffConfig"

definition fixedCostPerUser ::
  "BillConfig \<Rightarrow> MeterReading \<Rightarrow> MeterReading list \<Rightarrow> TariffConfig \<Rightarrow> real" where
  "fixedCostPerUser config mainMeter meters tariffConfig =
     (if length meters > 0
      then fixedSharedPool config mainMeter tariffConfig / real (length meters)
      else 0)"

definition energySharedPool :: "MeterReading \<Rightarrow> TariffConfig \<Rightarrow> real" where
  "energySharedPool mainMeter tariffConfig =
     energyCostBase mainMeter tariffConfig + vatDistributed' mainMeter tariffConfig"

definition calculatedRate' :: "MeterReading \<Rightarrow> MeterReading list \<Rightarrow> TariffConfig \<Rightarrow> real" where
  "calculatedRate' mainMeter meters tariffConfig =
     (if totalSubmeterUnits meters > 0
      then energySharedPool mainMeter tariffConfig / totalSubmeterUnits meters
      else 0)"

text \<open>The body of the \<^verbatim>\<open>meters.map\<close> callback: one row per sub-meter.\<close>

definition userCalculation :: "real \<Rightarrow> real \<Rightarrow> MeterReading \<Rightarrow> UserCalculation" where
  "userCalculation rate0 fixedPerUser m =
     (let units = max 0 (current m - previous m);
          userEnergyCost = units * rate0;
          payable = userEnergyCost + fixedPerUser
      in \<lparr> id_u = id_m m, name_u = name_m m, unitsUsed = units,
           energyCost = userEnergyCost, fixedCost = fixedPerUser,
           totalPayable = payable, previous_u = previous m, current_u = current m \<rparr>)"

definition calculateBillBreakdown ::
  "BillConfig \<Rightarrow> MeterReading \<Rightarrow> MeterReading list \<Rightarrow> TariffConfig \<Rightarrow> BillCalculationResult"
  where
  "calculateBillBreakdown config mainMeter meters tariffConfig =
     \<lparr> vatFixed = vatFixed' tariffConfig,
       vatDistributed = vatDistributed' mainMeter tariffConfig,
       vatTotal = vatTotal' mainMeter tariffConfig,
       lateFee = lateFee' config mainMeter tariffConfig,
       calculatedRate = calculatedRate' mainMeter meters tariffConfig,
       totalUnits = totalSubmeterUnits meters,
       userCalculations =
         map (userCalculation (calculatedRate' mainMeter meters tariffConfig)
                (fixedCostPerUser config mainMeter meters tariffConfig)) meters,
       totalCollection = totalBillCalculated config mainMeter tariffConfig \<rparr>"

section \<open>The specification's reading of the overflow policy\<close>

text \<open>
  The specification describes the cost of a consumption beyond the last limit tier by
  tier: tier \<open>i\<close> spans the consumption between the previous slab's limit (0 for the
  first) and its own limit, and a full tier is billed at its own rate. \<open>fullTiers\<close>
  follows these words, not the code; it is what the evaluator is compared with.
\<close>

fun fullTiers :: "real \<Rightarrow> Slab list \<Rightarrow> real" where
  "fullTiers previousLimit [] = 0"
| "fullTiers previousLimit (slab # rest) =
     (limit slab - previousLimit) * rate slab + fullTiers (limit slab) rest"

section \<open>Concrete inputs\<close>

text \<open>The worked example of the specification.\<close>

definition exampleSlabs :: "Slab list" where
  "exampleSlabs = [\<lparr> limit = 50, rate = 4 \<rparr>, \<lparr> limit = 100, rate = 5 \<rparr>,
                   \<lparr> limit = 99999, rate = 6 \<rparr>]"

definition exampleTariff :: TariffConfig where
  "exampleTariff = \<lparr> slabs = exampleSlabs, vatRate = 0.05, demandCharge = 100,
                     meterRent = 50, bkashCharge = 10 \<rparr>"

definition exampleConfig :: BillConfig where
  "exampleConfig = \<lparr> month = ''January'', dateGenerated = ''2024-01-31'',
                     includeLateFee = False, includeBkashFee = True,
                     totalBillPayable = 0 \<rparr>"

definition meter :: "string \<Rightarrow> real \<Rightarrow> real \<Rightarrow> MeterReading" where
  "meter n p c = \<lparr> id_m = n, name_m = n, meterNo = n, previous = p, current = c \<rparr>"

definition exampleMain :: MeterReading where
  "exampleMain = meter ''main'' 0 120"

definition exampleMeters :: "MeterReading list" where
  "exampleMeters = [meter ''a'' 0 60, meter ''b'' 0 60]"

text \<open>The same period billed late.\<close>

definition lateConfig :: BillConfig where
  "lateConfig = exampleConfig \<lparr> includeLateFee := True \<rparr>"

text \<open>
  Sub-meters that do not add up to the main meter: 30 and 50 units, and one meter
  that runs backwards.
\<close>

definition lossMeters :: "MeterReading list" where
  "lossMeters = [meter ''a'' 100 130, meter ''b'' 200 250, meter ''c'' 20 10]"

text \<open>Sub-meters without any consumption: one unchanged, one running backwards.\<close>

definition idleMeters :: "MeterReading list" where
  "idleMeters = [meter ''a'' 60 60, meter ''b'' 70 50]"

text \<open>The meter of the specification's clamp example: current 10, previous 20.\<close>

definition backwardsMeter :: MeterReading where
  "backwardsMeter = meter ''m'' 20 10"

text \<open>A tariff without slabs and without fixed charges.\<close>

definition freeTariff :: TariffConfig where
  "freeTariff = \<lparr> slabs = [], vatRate = 0.05, demandCharge = 0, meterRent = 0,
                  bkashCharge = 0 \<rparr>"

text \<open>A slab table with a negative rate, and an ascending one that starts below zero.\<close>

definition negativeRateSlabs :: "Slab list" where
  "negativeRateSlabs = [\<lparr> limit = 100, rate = - 1 \<rparr>]"

definition negativeLimitSlabs :: "Slab list" where
  "negativeLimitSlabs = [\<lparr> limit = - 10, rate = 1 \<rparr>, \<lparr> limit = 100, rate = 2 \<rparr>]"

section \<open>The evaluator's loop\<close>

lemma slabLoop_App2_eq: "slabLoop_App2 ss r c p = slabLoop ss r c p"
  by (induction ss arbitrary: r c p) (simp_all add: Let_def)

lemma slabLoop_Trends_eq: "slabLoop_Trends ss r c p = slabLoop ss r c p"
  by (induction ss arbitrary: r c p) (simp_all add: Let_def)

text \<open>
  Once nothing remains, the loop changes nothing any more, so the \<^verbatim>\<open>break\<close> is an
  optimisation: each iteration either bills \<open>u\<close> units or skips the slab.
\<close>

lemma slabLoop_exhausted: "r \<le> 0 \<Longrightarrow> slabLoop ss r c p = (r, c)"
  by (cases ss) (simp_all add: Let_def min_def)

lemma slabLoop_bill:
  "u = min r (limit s - p) \<Longrightarrow> 0 < u \<Longrightarrow>
   slabLoop (s # ss) r c p = slabLoop ss (r - u) (c + u * rate s) (limit s)"
  by (simp add: Let_def slabLoop_exhausted)

lemma slabLoop_skip:
  "u = min r (limit s - p) \<Longrightarrow> \<not> 0 < u \<Longrightarrow>
   slabLoop (s # ss) r c p = slabLoop ss r c (limit s)"
  by (auto simp: Let_def slabLoop_exhausted)

lemma calculateEnergyCost_Nil: "calculateEnergyCost u [] = 0"
  by (simp add: calculateEnergyCost_def)

lemma calculateEnergyCost_nonempty:
  "ss \<noteq> [] \<Longrightarrow> calculateEnergyCost u ss =
     snd (slabLoop ss u 0 0) + max 0 (fst (slabLoop ss u 0 0)) * rate (last ss)"
  by (auto simp: calculateEnergyCost_def last_conv_nth max_def split: prod.splits)

text \<open>
  The cost that \<^const>\<open>calculateEnergyCost\<close> returns from a loop state, with \<open>k\<close> for
  the last rate, grows with the units and the cost the loop starts from, as long as no
  rate is negative.
\<close>

lemma slabLoop_mono:
  assumes "\<forall>s\<in>set ss. 0 \<le> rate s" "0 \<le> k" "r1 \<le> r2" "c1 \<le> c2"
  shows "snd (slabLoop ss r1 c1 p) + max 0 (fst (slabLoop ss r1 c1 p)) * k
       \<le> snd (slabLoop ss r2 c2 p) + max 0 (fst (slabLoop ss r2 c2 p)) * k"
  using assms
proof (induction ss arbitrary: r1 r2 c1 c2 p)
  case Nil
  have "max 0 r1 * k \<le> max 0 r2 * k"
    using Nil.prems by (intro mult_right_mono) auto
  with Nil.prems show ?case by simp
next
  case (Cons s ss)
  define u1 where "u1 = min r1 (limit s - p)"
  define u2 where "u2 = min r2 (limit s - p)"
  have rate: "0 \<le> rate s" and rest: "\<forall>s\<in>set ss. 0 \<le> rate s"
    using Cons.prems by auto
  have u: "u1 \<le> u2" using Cons.prems by (simp add: u1_def u2_def min_def)
  have ur: "u1 * rate s \<le> u2 * rate s" using u rate by (rule mult_right_mono)
  have rem: "r1 - u1 \<le> r2 - u2" using Cons.prems by (simp add: u1_def u2_def min_def)
  note IH = Cons.IH [OF rest \<open>0 \<le> k\<close>]
  consider (both) "0 < u1" "0 < u2" | (second) "\<not> 0 < u1" "0 < u2"
    | (none) "\<not> 0 < u1" "\<not> 0 < u2"
    using u by linarith
  then show ?case
  proof cases
    case both
    have "c1 + u1 * rate s \<le> c2 + u2 * rate s" using ur Cons.prems by simp
    from IH [OF rem this] show ?thesis
      unfolding slabLoop_bill [OF u1_def both(1)] slabLoop_bill [OF u2_def both(2)] .
  next
    case second
    then have r1: "r1 \<le> 0" by (simp add: u1_def u2_def min_def split: if_splits)
    have "0 \<le> u2 * rate s" using second rate by simp
    then have c: "c1 \<le> c2 + u2 * rate s" using Cons.prems by simp
    have "r1 \<le> r2 - u2" using r1 by (simp add: u2_def min_def)
    from IH [OF this c] show ?thesis
      unfolding slabLoop_skip [OF u1_def second(1)] slabLoop_bill [OF u2_def second(2)] .
  next
    case none
    from IH [OF \<open>r1 \<le> r2\<close> \<open>c1 \<le> c2\<close>] show ?thesis
      unfolding slabLoop_skip [OF u1_def none(1)] slabLoop_skip [OF u2_def none(2)] .
  qed
qed

text \<open>With positive rates, a positive consumption costs something.\<close>

lemma slabLoop_pos:
  assumes "\<forall>s\<in>set ss. 0 < rate s" "0 < k" "0 \<le> c" "0 < r \<or> 0 < c"
  shows "0 < snd (slabLoop ss r c p) + max 0 (fst (slabLoop ss r c p)) * k"
  using assms
proof (induction ss arbitrary: r c p)
  case Nil
  then show ?case by (auto simp: max_def add_pos_nonneg add_nonneg_pos)
next
  case (Cons s ss)
  define u where "u = min r (limit s - p)"
  have rate: "0 < rate s" and rest: "\<forall>s\<in>set ss. 0 < rate s"
    using Cons.prems by auto
  show ?case
  proof (cases "0 < u")
    case True
    then have "0 < u * rate s" using rate by simp
    then have "0 < c + u * rate s" using Cons.prems(3) by simp
    then have "0 \<le> c + u * rate s" "0 < r - u \<or> 0 < c + u * rate s"
      by simp_all
    from Cons.IH [OF rest \<open>0 < k\<close> this] show ?thesis
      unfolding slabLoop_bill [OF u_def True] .
  next
    case False
    from Cons.IH [OF rest \<open>0 < k\<close> Cons.prems(3) Cons.prems(4)] show ?thesis
      unfolding slabLoop_skip [OF u_def False] .
  qed
qed

lemma calculateEnergyCost_pos:
  assumes "ss \<noteq> []" "\<forall>s\<in>set ss. 0 < rate s" "0 < u"
  shows "0 < calculateEnergyCost u ss"
proof -
  from assms have "0 < rate (last ss)" by simp
  from slabLoop_pos [OF assms(2) this, of 0 u 0] assms show ?thesis
    by (simp add: calculateEnergyCost_nonempty)
qed

text \<open>
  A consumption that reaches beyond every limit of an ascending table fills every
  tier: the loop ends with the tiers' cost and the units beyond the last limit.
\<close>

lemma slabLoop_full:
  assumes "sorted (map limit ss)" "\<forall>s\<in>set ss. p \<le> limit s"
    "\<forall>s\<in>set ss. limit s < p + r" "0 < r"
  shows "slabLoop ss r c p =
           (p + r - (if ss = [] then p else limit (last ss)), c + fullTiers p ss)"
  using assms
proof (induction ss arbitrary: r c p)
  case Nil
  then show ?case by simp
next
  case (Cons s ss)
  define u where "u = min r (limit s - p)"
  have size: "0 \<le> limit s - p" "limit s - p < r" using Cons.prems by auto
  then have m: "u = limit s - p" by (simp add: u_def)
  have 1: "sorted (map limit ss)" using Cons.prems by simp
  have 2: "\<forall>t\<in>set ss. limit s \<le> limit t" using Cons.prems by simp
  have 3: "\<forall>t\<in>set ss. limit t < limit s + (r - u)" using Cons.prems by (auto simp: m)
  have 4: "0 < r - u" using size by (simp add: m)
  show ?case
  proof (cases "0 < u")
    case True
    show ?thesis
      unfolding slabLoop_bill [OF u_def True] Cons.IH [OF 1 2 3 4]
      by (simp add: m)
  next
    case False
    with size have z: "u = 0" by (simp add: m)
    from Cons.IH [OF 1 2 3 4, of c] show ?thesis
      unfolding slabLoop_skip [OF u_def False] using z m by simp
  qed
qed

lemma sorted_limit_last:
  "sorted (map limit ss) \<Longrightarrow> s \<in> set ss \<Longrightarrow> limit s \<le> limit (last ss)"
  by (induction ss) auto

lemma sorted_limit_first:
  "sorted (map limit ss) \<Longrightarrow> s \<in> set ss \<Longrightarrow> limit (ss ! 0) \<le> limit s"
  by (cases ss) auto

section \<open>The engine's sums\<close>

text \<open>The \<^verbatim>\<open>forEach\<close> accumulator adds up the clamped deltas.\<close>

lemma totalSubmeterUnits_fold:
  "fold (\<lambda>m total. let units = current m - previous m
                      in total + (if units > 0 then units else 0)) ms a
   = a + sum_list (map (\<lambda>m. max 0 (current m - previous m)) ms)"
  by (induction ms arbitrary: a) (auto simp: Let_def max_def)

lemma totalSubmeterUnits_sum:
  "totalSubmeterUnits ms = sum_list (map (\<lambda>m. max 0 (current m - previous m)) ms)"
  unfolding totalSubmeterUnits_def totalSubmeterUnits_fold by simp

lemma sum_totalPayable:
  "sum_list (map (\<lambda>m. totalPayable (userCalculation r f m)) ms)
   = r * totalSubmeterUnits ms + real (length ms) * f"
  by (induction ms)
    (simp_all add: totalSubmeterUnits_sum userCalculation_def Let_def algebra_simps)

lemma sum_userCalculations:
  "sum_list (map totalPayable
     (userCalculations (calculateBillBreakdown config mainMeter meters tariffConfig)))
   = calculatedRate' mainMeter meters tariffConfig * totalSubmeterUnits meters
     + real (length meters) * fixedCostPerUser config mainMeter meters tariffConfig"
  by (simp add: calculateBillBreakdown_def comp_def sum_totalPayable)

lemma totalBillCalculated_pools:
  "totalBillCalculated config mainMeter tariffConfig
   = energySharedPool mainMeter tariffConfig + fixedSharedPool config mainMeter tariffConfig"
  by (simp add: totalBillCalculated_def energySharedPool_def fixedSharedPool_def
      vatDistributed'_def taxableBase_def)

lemma fixedCostPerUser_total:
  "meters \<noteq> [] \<Longrightarrow>
   real (length meters) * fixedCostPerUser config mainMeter meters tariffConfig
   = fixedSharedPool config mainMeter tariffConfig"
  by (simp add: fixedCostPerUser_def)

text \<open>The worked example, evaluated.\<close>

lemma exampleTariff_fields:
  "slabs exampleTariff = exampleSlabs" "vatRate exampleTariff = 0.05"
  "demandCharge exampleTariff = 100" "meterRent exampleTariff = 50"
  "bkashCharge exampleTariff = 10"
  by (simp_all add: exampleTariff_def)

lemma exampleConfig_fields:
  "includeLateFee exampleConfig = False" "includeBkashFee exampleConfig = True"
  "includeLateFee lateConfig = True" "includeBkashFee lateConfig = True"
  by (simp_all add: exampleConfig_def lateConfig_def)

lemma meter_fields: "previous (meter n p c) = p" "current (meter n p c) = c"
  by (simp_all add: meter_def)

lemma example_energyCost: "calculateEnergyCost 120 exampleSlabs = 570"
  by (simp add: calculateEnergyCost_def exampleSlabs_def Let_def)

lemma example_mainUnits: "mainUnits exampleMain = 120"
  by (simp add: mainUnits_def exampleMain_def meter_fields)

lemma example_energyCostBase: "energyCostBase exampleMain exampleTariff = 570"
  by (simp add: energyCostBase_def example_mainUnits exampleTariff_fields
      example_energyCost)

lemma example_fixedBase: "fixedBase exampleTariff = 150"
  by (simp add: fixedBase_def exampleTariff_fields)

lemma example_vatTotal: "vatTotal' exampleMain exampleTariff = 36"
  by (simp add: vatTotal'_def taxableBase_def example_energyCostBase example_fixedBase
      exampleTariff_fields)

lemma example_vatFixed: "vatFixed' exampleTariff = 7.5"
  by (simp add: vatFixed'_def example_fixedBase exampleTariff_fields)

lemma example_vatDistributed: "vatDistributed' exampleMain exampleTariff = 28.5"
  by (simp add: vatDistributed'_def example_vatTotal example_vatFixed)

lemma example_fixedSharedPool:
  "fixedSharedPool exampleConfig exampleMain exampleTariff = 167.5"
  by (simp add: fixedSharedPool_def example_fixedBase example_vatFixed bkash_def
      lateFee'_def exampleTariff_fields exampleConfig_fields)

lemma late_fixedSharedPool:
  "fixedSharedPool lateConfig exampleMain exampleTariff = 203.5"
  by (simp add: fixedSharedPool_def example_fixedBase example_vatFixed bkash_def
      lateFee'_def example_vatTotal exampleTariff_fields exampleConfig_fields)

lemma example_energySharedPool: "energySharedPool exampleMain exampleTariff = 598.5"
  by (simp add: energySharedPool_def example_energyCostBase example_vatDistributed)

lemma example_totalBillCalculated:
  "totalBillCalculated exampleConfig exampleMain exampleTariff = 766"
  by (simp add: totalBillCalculated_pools example_fixedSharedPool example_energySharedPool)

lemma example_totalSubmeterUnits:
  "totalSubmeterUnits exampleMeters = 120" "totalSubmeterUnits lossMeters = 80"
  "totalSubmeterUnits idleMeters = 0"
  by (simp_all add: totalSubmeterUnits_sum exampleMeters_def lossMeters_def idleMeters_def
      meter_fields)

lemma example_calculatedRate: "calculatedRate' exampleMain exampleMeters exampleTariff = 4.9875"
  by (simp add: calculatedRate'_def example_totalSubmeterUnits example_energySharedPool)

lemma example_fixedCostPerUser:
  "fixedCostPerUser exampleConfig exampleMain exampleMeters exampleTariff = 83.75"
  by (simp add: fixedCostPerUser_def example_fixedSharedPool exampleMeters_def)

section \<open>Claims about the evaluator\<close>

text \<open>
  C9. The three copies of the tiered energy cost evaluator (the two definitions in
  \<^verbatim>\<open>App.tsx\<close> and the one in \<^verbatim>\<open>TrendsDashboard.tsx\<close>) return the same cost for every
  units value and every slab table.
\<close>

theorem C9_evaluator_copies_equal:
  "calculateEnergyCost_App2 units ss = calculateEnergyCost units ss
   \<and> calculateEnergyCost_Trends units ss = calculateEnergyCost units ss"
  by (simp add: calculateEnergyCost_def calculateEnergyCost_App2_def
      calculateEnergyCost_Trends_def slabLoop_App2_eq slabLoop_Trends_eq)

text \<open>
  C5, as stated: the cost is non-decreasing in the units for any slab table, whatever
  the sign of the rates. It fails for a table with a negative rate: 1 unit costs -1,
  2 units cost -2.
\<close>

theorem C5_negative_rate_counterexample:
  "(1::real) \<le> 2 \<and>
   \<not> calculateEnergyCost 1 negativeRateSlabs \<le> calculateEnergyCost 2 negativeRateSlabs"
  by (simp add: calculateEnergyCost_def negativeRateSlabs_def Let_def)

text \<open>
  C5, amended: for every slab table none of whose rates is negative (sorted or not),
  the cost is non-decreasing in the units.
\<close>

theorem C5_slab_monotonicity:
  assumes "\<forall>s\<in>set ss. 0 \<le> rate s" and "u1 \<le> u2"
  shows "calculateEnergyCost u1 ss \<le> calculateEnergyCost u2 ss"
proof (cases "ss = []")
  case True
  then show ?thesis by (simp add: calculateEnergyCost_Nil)
next
  case False
  with assms(1) have "0 \<le> rate (last ss)" by simp
  from slabLoop_mono [OF assms(1) this assms(2), of 0 0 0] False show ?thesis
    by (simp add: calculateEnergyCost_nonempty)
qed

theorem C5_slab_monotonicity_witness:
  "list_all (\<lambda>s. 0 \<le> rate s) exampleSlabs \<and> (60::real) \<le> 120
   \<and> calculateEnergyCost 60 exampleSlabs \<le> 570"
proof -
  have h1: "\<forall>s\<in>set exampleSlabs. 0 \<le> rate s" by (simp add: exampleSlabs_def)
  have h2: "(60::real) \<le> 120" by simp
  from C5_slab_monotonicity [OF h1 h2] h1 show ?thesis
    by (simp add: example_energyCost list_all_iff)
qed

text \<open>
  C6, as stated: for every non-empty ascending slab table and units beyond the last
  limit, the cost is every full tier at its own rate plus the units beyond the last
  limit at the last rate. It fails for an ascending table whose first limit is
  negative: with limits -10 and 100 and 150 units, the loop bills 110 units in the
  second tier and the remaining 40 at the last rate, 300 in all, while the tiers and
  the 50 units beyond the last limit come to 310.
\<close>

theorem C6_negative_limit_counterexample:
  "negativeLimitSlabs \<noteq> [] \<and> sorted (map limit negativeLimitSlabs)
   \<and> limit (last negativeLimitSlabs) < 150
   \<and> calculateEnergyCost 150 negativeLimitSlabs = 300
   \<and> fullTiers 0 negativeLimitSlabs
       + (150 - limit (last negativeLimitSlabs)) * rate (last negativeLimitSlabs) = 310"
  by (simp add: calculateEnergyCost_def negativeLimitSlabs_def Let_def)

text \<open>
  C6, amended: for every non-empty slab table ascending by limit whose first limit is
  not negative, and every units value beyond the last limit, the cost is every full
  tier at its own rate plus the units beyond the last limit at the last slab's rate.
\<close>

theorem C6_overflow_policy:
  assumes "ss \<noteq> []" and "sorted (map limit ss)" and "0 \<le> limit (ss ! 0)"
    and "limit (last ss) < u"
  shows "calculateEnergyCost u ss
         = fullTiers 0 ss + (u - limit (last ss)) * rate (last ss)"
proof -
  have lo: "\<forall>s\<in>set ss. 0 \<le> limit s"
    using sorted_limit_first [OF assms(2)] assms(3) by fastforce
  have hi: "\<forall>s\<in>set ss. limit s < 0 + u"
    using sorted_limit_last [OF assms(2)] assms(4) by fastforce
  have "last ss \<in> set ss" using assms(1) by simp
  with lo assms(4) have "0 < u" by fastforce
  from slabLoop_full [OF assms(2) lo hi this, of 0] assms(1,4) show ?thesis
    by (simp add: calculateEnergyCost_nonempty)
qed

text \<open>The specification's instance: 150 units on the single slab (100, 5) cost 750.\<close>

theorem C6_overflow_policy_witness:
  "calculateEnergyCost 150 [\<lparr> limit = 100, rate = 5 \<rparr>] = 100 * 5 + 50 * 5
   \<and> calculateEnergyCost 150 [\<lparr> limit = 100, rate = 5 \<rparr>] = 750"
proof -
  let ?ss = "[\<lparr> limit = 100, rate = 5 \<rparr>]"
  have h1: "?ss \<noteq> []" by simp
  have h2: "sorted (map limit ?ss)" by simp
  have h3: "0 \<le> limit (?ss ! 0)" by simp
  have h4: "limit (last ?ss) < 150" by simp
  from C6_overflow_policy [OF h1 h2 h3 h4] show ?thesis by simp
qed

text \<open>
  C7. For every non-empty slab table whose first limit is not negative, the cost of
  exactly \<open>slabs[0].limit\<close> units is \<open>slabs[0].limit * slabs[0].rate\<close>: nothing is
  billed in a later tier or as overflow. (The order of the later slabs plays no part.)
\<close>

theorem C7_slab_boundary:
  assumes "ss \<noteq> []" and "0 \<le> limit (ss ! 0)"
  shows "calculateEnergyCost (limit (ss ! 0)) ss = limit (ss ! 0) * rate (ss ! 0)"
  using assms by (cases ss) (auto simp: calculateEnergyCost_def Let_def)

theorem C7_slab_boundary_witness:
  "exampleSlabs \<noteq> [] \<and> 0 \<le> limit (exampleSlabs ! 0)
   \<and> calculateEnergyCost 50 exampleSlabs = 200"
proof -
  have h1: "exampleSlabs \<noteq> []" by (simp add: exampleSlabs_def)
  have h2: "0 \<le> limit (exampleSlabs ! 0)" by (simp add: exampleSlabs_def)
  have "limit (exampleSlabs ! 0) = 50" "rate (exampleSlabs ! 0) = 4"
    by (simp_all add: exampleSlabs_def)
  with C7_slab_boundary [OF h1 h2] h1 h2 show ?thesis by simp
qed

section \<open>Claims about the engine\<close>

text \<open>
  C1. Reconciliation: whenever the list of sub-meters is not empty and their total
  clamped consumption is positive, the users' \<open>totalPayable\<close> add up to
  \<open>totalCollection\<close>, exactly.
\<close>

theorem C1_reconciliation:
  assumes "meters \<noteq> []" and "0 < totalSubmeterUnits meters"
  shows "sum_list (map totalPayable
           (userCalculations (calculateBillBreakdown config mainMeter meters tariffConfig)))
         = totalCollection (calculateBillBreakdown config mainMeter meters tariffConfig)"
proof -
  have "calculatedRate' mainMeter meters tariffConfig * totalSubmeterUnits meters
        = energySharedPool mainMeter tariffConfig"
    using assms(2) by (simp add: calculatedRate'_def)
  moreover have "totalCollection (calculateBillBreakdown config mainMeter meters tariffConfig)
        = totalBillCalculated config mainMeter tariffConfig"
    by (simp add: calculateBillBreakdown_def)
  ultimately show ?thesis
    by (simp add: sum_userCalculations fixedCostPerUser_total [OF assms(1)]
        totalBillCalculated_pools)
qed

text \<open>
  The worked example's tariff and main meter (120 units) with sub-meters that record
  only 80 units between them: the three users still pay 766 in all.
\<close>

theorem C1_reconciliation_witness:
  "lossMeters \<noteq> [] \<and> 0 < totalSubmeterUnits lossMeters
   \<and> sum_list (map totalPayable
        (userCalculations (calculateBillBreakdown exampleConfig exampleMain lossMeters
           exampleTariff))) = 766"
proof -
  have h1: "lossMeters \<noteq> []" by (simp add: lossMeters_def)
  have h2: "0 < totalSubmeterUnits lossMeters" by (simp add: example_totalSubmeterUnits)
  have "totalCollection (calculateBillBreakdown exampleConfig exampleMain lossMeters
          exampleTariff) = 766"
    by (simp add: calculateBillBreakdown_def example_totalBillCalculated)
  with C1_reconciliation [OF h1 h2, of exampleConfig exampleMain exampleTariff] h1 h2
  show ?thesis by simp
qed

text \<open>
  C2. The worked example: energy cost base 570, \<open>vatTotal\<close> 36, \<open>totalCollection\<close> 766,
  \<open>totalUnits\<close> 120, \<open>vatFixed\<close> 7.5, \<open>vatDistributed\<close> 28.5, fixed cost per user
  83.75, \<open>calculatedRate\<close> 4.9875, each user's \<open>totalPayable\<close> 383, and the two add up
  to 766, the \<open>totalCollection\<close>.
\<close>

theorem C2_worked_example:
  "calculateEnergyCost 120 exampleSlabs = 50 * 4 + 50 * 5 + 20 * 6
   \<and> energyCostBase exampleMain exampleTariff = 570
   \<and> vatTotal (calculateBillBreakdown exampleConfig exampleMain exampleMeters exampleTariff) = 36
   \<and> totalCollection (calculateBillBreakdown exampleConfig exampleMain exampleMeters exampleTariff) = 766
   \<and> totalUnits (calculateBillBreakdown exampleConfig exampleMain exampleMeters exampleTariff) = 120
   \<and> vatFixed (calculateBillBreakdown exampleConfig exampleMain exampleMeters exampleTariff) = 7.5
   \<and> vatDistributed (calculateBillBreakdown exampleConfig exampleMain exampleMeters exampleTariff) = 28.5
   \<and> lateFee (calculateBillBreakdown exampleConfig exampleMain exampleMeters exampleTariff) = 0
   \<and> fixedSharedPool exampleConfig exampleMain exampleTariff = 167.5
   \<and> fixedCostPerUser exampleConfig exampleMain exampleMeters exampleTariff = 83.75
   \<and> energySharedPool exampleMain exampleTariff = 598.5
   \<and> calculatedRate (calculateBillBreakdown exampleConfig exampleMain exampleMeters exampleTariff) = 4.9875
   \<and> map unitsUsed (userCalculations (calculateBillBreakdown exampleConfig exampleMain exampleMeters exampleTariff)) = [60, 60]
   \<and> map energyCost (userCalculations (calculateBillBreakdown exampleConfig exampleMain exampleMeters exampleTariff)) = [299.25, 299.25]
   \<and> map fixedCost (userCalculations (calculateBillBreakdown exampleConfig exampleMain exampleMeters exampleTariff)) = [83.75, 83.75]
   \<and> map totalPayable (userCalculations (calculateBillBreakdown exampleConfig exampleMain exampleMeters exampleTariff)) = [383, 383]
   \<and> sum_list (map totalPayable (userCalculations (calculateBillBreakdown exampleConfig exampleMain exampleMeters exampleTariff))) = 766"
proof -
  have "userCalculations (calculateBillBreakdown exampleConfig exampleMain exampleMeters exampleTariff)
      = map (userCalculation 4.9875 83.75) exampleMeters"
    by (simp add: calculateBillBreakdown_def example_calculatedRate example_fixedCostPerUser)
  then have users: "userCalculations (calculateBillBreakdown exampleConfig exampleMain exampleMeters exampleTariff)
      = [userCalculation 4.9875 83.75 (meter ''a'' 0 60), userCalculation 4.9875 83.75 (meter ''b'' 0 60)]"
    by (simp add: exampleMeters_def)
  have fields: "vatTotal (calculateBillBreakdown exampleConfig exampleMain exampleMeters exampleTariff) = 36"
    "totalCollection (calculateBillBreakdown exampleConfig exampleMain exampleMeters exampleTariff) = 766"
    "totalUnits (calculateBillBreakdown exampleConfig exampleMain exampleMeters exampleTariff) = 120"
    "vatFixed (calculateBillBreakdown exampleConfig exampleMain exampleMeters exampleTariff) = 7.5"
    "vatDistributed (calculateBillBreakdown exampleConfig exampleMain exampleMeters exampleTariff) = 28.5"
    "lateFee (calculateBillBreakdown exampleConfig exampleMain exampleMeters exampleTariff) = 0"
    "calculatedRate (calculateBillBreakdown exampleConfig exampleMain exampleMeters exampleTariff) = 4.9875"
    by (simp_all add: calculateBillBreakdown_def example_vatTotal example_totalBillCalculated
        example_totalSubmeterUnits example_vatFixed example_vatDistributed
        example_calculatedRate lateFee'_def exampleConfig_fields)
  show ?thesis
    unfolding users fields
    by (simp add: userCalculation_def meter_fields Let_def example_energyCost
        example_energyCostBase example_fixedSharedPool example_fixedCostPerUser
        example_energySharedPool)
qed

text \<open>
  C3, as stated: without sub-meters, \<open>totalCollection\<close> is nonzero whenever the main
  meter's consumption is positive. It fails for a tariff without slabs and without
  fixed charges: 120 units on the main meter, and a total of 0.
\<close>

theorem C3_free_tariff_counterexample:
  "0 < mainUnits exampleMain
   \<and> totalCollection (calculateBillBreakdown exampleConfig exampleMain [] freeTariff) = 0"
  by (simp add: calculateBillBreakdown_def totalBillCalculated_def taxableBase_def
      energyCostBase_def calculateEnergyCost_Nil fixedBase_def vatTotal'_def lateFee'_def
      bkash_def freeTariff_def example_mainUnits)

text \<open>
  C3, amended: without sub-meters the engine returns \<open>totalUnits = 0\<close>, no user rows and
  \<open>calculatedRate = 0\<close>, with a fixed cost per user of 0, while \<open>totalCollection\<close> is
  still the total computed from the main meter and the tariff, the same as with any
  list of sub-meters; it is positive whenever the main meter's consumption is positive,
  the slab table is not empty, every rate is positive and the VAT rate, the demand
  charge, the meter rent and the bKash charge are not negative.
\<close>

theorem C3_zero_submeters:
  "(let r = calculateBillBreakdown config mainMeter [] tariffConfig in
      totalUnits r = 0 \<and> userCalculations r = [] \<and> calculatedRate r = 0
      \<and> fixedCostPerUser config mainMeter [] tariffConfig = 0
      \<and> totalCollection r
          = taxableBase mainMeter tariffConfig
            + taxableBase mainMeter tariffConfig * vatRate tariffConfig
            + (if includeLateFee config
               then taxableBase mainMeter tariffConfig * vatRate tariffConfig else 0)
            + (if includeBkashFee config then bkashCharge tariffConfig else 0)
      \<and> totalCollection r
          = totalCollection (calculateBillBreakdown config mainMeter meters tariffConfig)
      \<and> (0 < mainUnits mainMeter \<and> slabs tariffConfig \<noteq> []
           \<and> (\<forall>s\<in>set (slabs tariffConfig). 0 < rate s)
           \<and> 0 \<le> vatRate tariffConfig \<and> 0 \<le> demandCharge tariffConfig
           \<and> 0 \<le> meterRent tariffConfig \<and> 0 \<le> bkashCharge tariffConfig
          \<longrightarrow> 0 < totalCollection r))"
proof -
  have degraded: "totalSubmeterUnits [] = 0"
    "calculatedRate' mainMeter [] tariffConfig = 0"
    "fixedCostPerUser config mainMeter [] tariffConfig = 0"
    by (simp_all add: totalSubmeterUnits_def calculatedRate'_def fixedCostPerUser_def)
  have total: "totalBillCalculated config mainMeter tariffConfig
      = taxableBase mainMeter tariffConfig
        + taxableBase mainMeter tariffConfig * vatRate tariffConfig
        + (if includeLateFee config
           then taxableBase mainMeter tariffConfig * vatRate tariffConfig else 0)
        + (if includeBkashFee config then bkashCharge tariffConfig else 0)"
    by (simp add: totalBillCalculated_def vatTotal'_def lateFee'_def bkash_def)
  have positive: "0 < totalBillCalculated config mainMeter tariffConfig"
    if u: "0 < mainUnits mainMeter" and ne: "slabs tariffConfig \<noteq> []"
      and rates: "\<forall>s\<in>set (slabs tariffConfig). 0 < rate s"
      and vat: "0 \<le> vatRate tariffConfig" and dc: "0 \<le> demandCharge tariffConfig"
      and mr: "0 \<le> meterRent tariffConfig" and bk: "0 \<le> bkashCharge tariffConfig"
  proof -
    have "0 < energyCostBase mainMeter tariffConfig"
      unfolding energyCostBase_def by (rule calculateEnergyCost_pos [OF ne rates u])
    then have base: "0 < taxableBase mainMeter tariffConfig"
      using dc mr by (simp add: taxableBase_def fixedBase_def)
    then have "0 \<le> taxableBase mainMeter tariffConfig * vatRate tariffConfig"
      using vat by simp
    with base bk show ?thesis unfolding total by (simp add: add_pos_nonneg)
  qed
  show ?thesis
    unfolding Let_def
    using positive total by (simp add: calculateBillBreakdown_def degraded)
qed

theorem C3_zero_submeters_witness:
  "0 < mainUnits exampleMain \<and> slabs exampleTariff \<noteq> []
   \<and> list_all (\<lambda>s. 0 < rate s) (slabs exampleTariff)
   \<and> 0 \<le> vatRate exampleTariff \<and> 0 \<le> demandCharge exampleTariff
   \<and> 0 \<le> meterRent exampleTariff \<and> 0 \<le> bkashCharge exampleTariff
   \<and> userCalculations (calculateBillBreakdown exampleConfig exampleMain [] exampleTariff) = []
   \<and> 0 < totalCollection (calculateBillBreakdown exampleConfig exampleMain [] exampleTariff)"
proof -
  have h: "0 < mainUnits exampleMain" "slabs exampleTariff \<noteq> []"
    "\<forall>s\<in>set (slabs exampleTariff). 0 < rate s"
    "0 \<le> vatRate exampleTariff" "0 \<le> demandCharge exampleTariff"
    "0 \<le> meterRent exampleTariff" "0 \<le> bkashCharge exampleTariff"
    by (simp_all add: example_mainUnits exampleTariff_fields exampleSlabs_def)
  from C3_zero_submeters [of exampleConfig exampleMain exampleTariff "[]"] h
  show ?thesis unfolding Let_def list_all_iff by blast
qed

text \<open>
  C4. Late fee duplication: when the late fee is included, the result's \<open>lateFee\<close> is
  its \<open>vatTotal\<close>; when it is not, the \<open>lateFee\<close> is 0.
\<close>

theorem C4_late_fee_duplication:
  "(includeLateFee config \<longrightarrow>
      lateFee (calculateBillBreakdown config mainMeter meters tariffConfig)
      = vatTotal (calculateBillBreakdown config mainMeter meters tariffConfig))
   \<and> (\<not> includeLateFee config \<longrightarrow>
      lateFee (calculateBillBreakdown config mainMeter meters tariffConfig) = 0)"
  by (simp add: calculateBillBreakdown_def lateFee'_def)

theorem C4_late_fee_duplication_witness:
  "includeLateFee lateConfig
   \<and> vatTotal (calculateBillBreakdown lateConfig exampleMain exampleMeters exampleTariff) = 36
   \<and> lateFee (calculateBillBreakdown lateConfig exampleMain exampleMeters exampleTariff) = 36
   \<and> \<not> includeLateFee exampleConfig
   \<and> lateFee (calculateBillBreakdown exampleConfig exampleMain exampleMeters exampleTariff) = 0"
proof -
  have h1: "includeLateFee lateConfig" and h2: "\<not> includeLateFee exampleConfig"
    by (simp_all add: exampleConfig_fields)
  have v: "vatTotal (calculateBillBreakdown lateConfig exampleMain exampleMeters exampleTariff) = 36"
    by (simp add: calculateBillBreakdown_def example_vatTotal)
  from C4_late_fee_duplication [of lateConfig exampleMain exampleMeters exampleTariff]
    C4_late_fee_duplication [of exampleConfig exampleMain exampleMeters exampleTariff]
    h1 h2 v
  show ?thesis by simp
qed

text \<open>
  C8. Negative delta clamp: a meter whose current reading is below its previous one has
  consumption 0 wherever consumption is used. As main meter it feeds 0 units to the
  evaluator; as sub-meter it adds nothing to \<open>totalSubmeterUnits\<close>, wherever it stands
  in the list; and its user row has \<open>unitsUsed = 0\<close>.
\<close>

theorem C8_negative_delta_clamp:
  "(current mainMeter < previous mainMeter \<longrightarrow>
      mainUnits mainMeter = 0
      \<and> energyCostBase mainMeter tariffConfig = calculateEnergyCost 0 (slabs tariffConfig))
   \<and> (current m < previous m \<longrightarrow>
      totalSubmeterUnits (before @ m # after) = totalSubmeterUnits (before @ after))
   \<and> (i < length meters \<and> current (meters ! i) < previous (meters ! i) \<longrightarrow>
      unitsUsed (userCalculations
        (calculateBillBreakdown config mainMeter meters tariffConfig) ! i) = 0)"
  by (simp add: mainUnits_def energyCostBase_def totalSubmeterUnits_sum
      calculateBillBreakdown_def userCalculation_def Let_def)

text \<open>The meter of the specification with current 10 and previous 20, in each place.\<close>

theorem C8_negative_delta_clamp_witness:
  "current backwardsMeter < previous backwardsMeter
   \<and> mainUnits backwardsMeter = 0
   \<and> totalSubmeterUnits ([meter ''a'' 100 130] @ backwardsMeter # [meter ''b'' 200 250])
       = totalSubmeterUnits ([meter ''a'' 100 130] @ [meter ''b'' 200 250])
   \<and> (1::nat) < length [meter ''a'' 100 130, backwardsMeter, meter ''b'' 200 250]
   \<and> unitsUsed (userCalculations (calculateBillBreakdown exampleConfig exampleMain
        [meter ''a'' 100 130, backwardsMeter, meter ''b'' 200 250] exampleTariff) ! 1) = 0"
proof -
  have h: "current backwardsMeter < previous backwardsMeter"
    by (simp add: backwardsMeter_def meter_fields)
  have i: "(1::nat) < length [meter ''a'' 100 130, backwardsMeter, meter ''b'' 200 250]"
    "current ([meter ''a'' 100 130, backwardsMeter, meter ''b'' 200 250] ! 1)
      < previous ([meter ''a'' 100 130, backwardsMeter, meter ''b'' 200 250] ! 1)"
    using h by simp_all
  from C8_negative_delta_clamp [of backwardsMeter exampleTariff backwardsMeter
      "[meter ''a'' 100 130]" "[meter ''b'' 200 250]" 1
      "[meter ''a'' 100 130, backwardsMeter, meter ''b'' 200 250]" exampleConfig]
  have "mainUnits backwardsMeter = 0"
    "totalSubmeterUnits ([meter ''a'' 100 130] @ backwardsMeter # [meter ''b'' 200 250])
       = totalSubmeterUnits ([meter ''a'' 100 130] @ [meter ''b'' 200 250])"
    using h by blast+
  moreover
  from C8_negative_delta_clamp [of exampleMain exampleTariff backwardsMeter
      "[]" "[]" 1
      "[meter ''a'' 100 130, backwardsMeter, meter ''b'' 200 250]" exampleConfig] i
  have "unitsUsed (userCalculations (calculateBillBreakdown exampleConfig exampleMain
        [meter ''a'' 100 130, backwardsMeter, meter ''b'' 200 250] exampleTariff) ! 1) = 0"
    by blast
  ultimately show ?thesis using h i(1) by blast
qed

text \<open>
  C10. When there are sub-meters but none of them has consumption, every user row has
  \<open>energyCost = 0\<close> and \<open>totalPayable = fixedSharedPool / subMeters.length\<close>; the rows add
  up to \<open>fixedSharedPool = fixedBase + vatFixed + bkash + lateFee\<close>, which misses
  \<open>totalCollection\<close> by exactly \<open>energyCostBase + vatDistributed\<close>. The rows reconcile
  with \<open>totalCollection\<close> only if that energy pool is 0.
\<close>

theorem C10_zero_consumption_gap:
  assumes "meters \<noteq> []" and "totalSubmeterUnits meters = 0"
  shows "(let r = calculateBillBreakdown config mainMeter meters tariffConfig;
              payable = sum_list (map totalPayable (userCalculations r)) in
          (\<forall>u\<in>set (userCalculations r).
              energyCost u = 0
              \<and> totalPayable u
                  = fixedSharedPool config mainMeter tariffConfig / real (length meters))
          \<and> payable = fixedSharedPool config mainMeter tariffConfig
          \<and> fixedSharedPool config mainMeter tariffConfig
              = fixedBase tariffConfig + vatFixed r + bkash config tariffConfig + lateFee r
          \<and> totalCollection r - payable
              = energyCostBase mainMeter tariffConfig + vatDistributed r
          \<and> (energyCostBase mainMeter tariffConfig + vatDistributed r \<noteq> 0
               \<longrightarrow> payable \<noteq> totalCollection r))"
proof -
  let ?r = "calculateBillBreakdown config mainMeter meters tariffConfig"
  have rate0: "calculatedRate' mainMeter meters tariffConfig = 0"
    using assms(2) by (simp add: calculatedRate'_def)
  have rows: "\<forall>u\<in>set (userCalculations ?r).
      energyCost u = 0
      \<and> totalPayable u = fixedSharedPool config mainMeter tariffConfig / real (length meters)"
    using assms(1)
    by (simp add: calculateBillBreakdown_def rate0 userCalculation_def Let_def
        fixedCostPerUser_def)
  have payable: "sum_list (map totalPayable (userCalculations ?r))
      = fixedSharedPool config mainMeter tariffConfig"
    using fixedCostPerUser_total [OF assms(1)]
    by (simp add: sum_userCalculations rate0)
  have pool: "fixedSharedPool config mainMeter tariffConfig
      = fixedBase tariffConfig + vatFixed ?r + bkash config tariffConfig + lateFee ?r"
    by (simp add: calculateBillBreakdown_def fixedSharedPool_def)
  have gap: "totalCollection ?r - fixedSharedPool config mainMeter tariffConfig
      = energyCostBase mainMeter tariffConfig + vatDistributed ?r"
    by (simp add: calculateBillBreakdown_def totalBillCalculated_pools energySharedPool_def)
  from gap have differ: "energyCostBase mainMeter tariffConfig + vatDistributed ?r \<noteq> 0
      \<longrightarrow> fixedSharedPool config mainMeter tariffConfig \<noteq> totalCollection ?r"
    by auto
  show ?thesis
    unfolding Let_def payable using rows pool gap differ by blast
qed

text \<open>
  The worked example with idle sub-meters: the two users pay 83.75 each, 167.5 in
  all, and 598.5 of the total of 766 is billed to nobody.
\<close>

theorem C10_zero_consumption_gap_witness:
  "idleMeters \<noteq> [] \<and> totalSubmeterUnits idleMeters = 0
   \<and> sum_list (map totalPayable (userCalculations
        (calculateBillBreakdown exampleConfig exampleMain idleMeters exampleTariff))) = 167.5
   \<and> totalCollection (calculateBillBreakdown exampleConfig exampleMain idleMeters exampleTariff)
       = 766
   \<and> energyCostBase exampleMain exampleTariff
       + vatDistributed (calculateBillBreakdown exampleConfig exampleMain idleMeters
           exampleTariff) = 598.5"
proof -
  have h1: "idleMeters \<noteq> []" by (simp add: idleMeters_def)
  have h2: "totalSubmeterUnits idleMeters = 0" by (simp add: example_totalSubmeterUnits)
  have v: "totalCollection (calculateBillBreakdown exampleConfig exampleMain idleMeters
        exampleTariff) = 766"
    "vatDistributed (calculateBillBreakdown exampleConfig exampleMain idleMeters
        exampleTariff) = 28.5"
    by (simp_all add: calculateBillBreakdown_def example_totalBillCalculated
        example_vatDistributed)
  from C10_zero_consumption_gap [OF h1 h2, of exampleConfig exampleMain exampleTariff]
  have "sum_list (map totalPayable (userCalculations
        (calculateBillBreakdown exampleConfig exampleMain idleMeters exampleTariff)))
      = fixedSharedPool exampleConfig exampleMain exampleTariff"
    unfolding Let_def by blast
  with h1 h2 v show ?thesis
    by (simp add: example_fixedSharedPool example_energyCostBase)
qed

end
